theory Spec2Isabelle
  imports Complex_Main "HOL-Library.AList"
begin

section \<open>Values of a float64 column\<close>

text \<open>
  The columns of the data frames handled by \<^verbatim>\<open>stock_toolkit.py\<close> hold float64 values.
  A finite value is modelled by the real number it stands for (rounding and the sign of
  zero are not modelled); the three special values, which decide what the RSI and the
  normalisation return on a zero divisor, are kept: \<open>NaN\<close> (which pandas also uses as
  its marker of a missing or undefined entry), \<open>PInf\<close> and \<open>NInf\<close>.
\<close>

datatype fval = NaN | PInf | NInf | Fin real

datatype py_error = KeyError | ValueError | IndexError

fun fneg :: "fval \<Rightarrow> fval" where
  "fneg NaN = NaN"
| "fneg PInf = NInf"
| "fneg NInf = PInf"
| "fneg (Fin a) = Fin (- a)"

fun fadd :: "fval \<Rightarrow> fval \<Rightarrow> fval" where
  "fadd (Fin a) (Fin b) = Fin (a + b)"
| "fadd NaN _ = NaN"
| "fadd _ NaN = NaN"
| "fadd PInf NInf = NaN"
| "fadd NInf PInf = NaN"
| "fadd PInf _ = PInf"
| "fadd _ PInf = PInf"
| "fadd NInf _ = NInf"
| "fadd _ NInf = NInf"

definition fsub :: "fval \<Rightarrow> fval \<Rightarrow> fval" where
  "fsub a b = fadd a (fneg b)"

text \<open>The sign of a value, as far as a product or quotient with an infinity needs it.\<close>

fun fsign :: "fval \<Rightarrow> int" where
  "fsign NaN = 0"
| "fsign PInf = 1"
| "fsign NInf = - 1"
| "fsign (Fin a) = (if a > 0 then 1 else if a < 0 then - 1 else 0)"

definition inf_of_sign :: "int \<Rightarrow> fval" where
  "inf_of_sign s = (if s > 0 then PInf else if s < 0 then NInf else NaN)"

fun fmul :: "fval \<Rightarrow> fval \<Rightarrow> fval" where
  "fmul (Fin a) (Fin b) = Fin (a * b)"
| "fmul NaN _ = NaN"
| "fmul _ NaN = NaN"
| "fmul a b = inf_of_sign (fsign a * fsign b)"

text \<open>
  Division as numpy does it on float64 arrays: a non-zero value over zero is an infinity,
  zero over zero is \<open>NaN\<close>, a finite value over an infinity is zero, and an infinity over
  an infinity is \<open>NaN\<close>. No exception is raised.
\<close>

fun fdiv :: "fval \<Rightarrow> fval \<Rightarrow> fval" where
  "fdiv NaN _ = NaN"
| "fdiv _ NaN = NaN"
| "fdiv (Fin a) (Fin b) = (if b \<noteq> 0 then Fin (a / b) else inf_of_sign (fsign (Fin a)))"
| "fdiv (Fin a) _ = Fin 0"
| "fdiv PInf (Fin b) = (if b < 0 then NInf else PInf)"
| "fdiv NInf (Fin b) = (if b < 0 then PInf else NInf)"
| "fdiv _ _ = NaN"

text \<open>Comparison: every comparison with \<open>NaN\<close> is false.\<close>

fun fless :: "fval \<Rightarrow> fval \<Rightarrow> bool" where
  "fless NaN _ = False"
| "fless _ NaN = False"
| "fless (Fin a) (Fin b) = (a < b)"
| "fless NInf NInf = False"
| "fless NInf _ = True"
| "fless PInf _ = False"
| "fless _ PInf = True"
| "fless _ NInf = False"

definition fsum :: "fval list \<Rightarrow> fval" where
  "fsum xs = foldl fadd (Fin 0) xs"

section \<open>The pandas primitives the analysis module uses\<close>

type_synonym series = "fval list"

text \<open>
  \<^verbatim>\<open>s.diff(1)\<close>: the first position has no predecessor and is \<open>NaN\<close>; position \<open>i\<close>
  holds \<open>s[i] - s[i-1]\<close>.
\<close>

fun diff1 :: "series \<Rightarrow> series" where
  "diff1 [] = []"
| "diff1 (x # xs) = NaN # map (\<lambda>(a, b). fsub a b) (zip xs (x # xs))"

text \<open>
  \<^verbatim>\<open>s.where(cond, other)\<close>: keeps the entry where the condition holds and puts
  \<open>other\<close> where it does not (also where the entry is \<open>NaN\<close>, whose comparisons are
  false).
\<close>

definition series_where :: "(fval \<Rightarrow> bool) \<Rightarrow> fval \<Rightarrow> series \<Rightarrow> series" where
  "series_where cond other s = map (\<lambda>x. if cond x then x else other) s"

text \<open>
  \<^verbatim>\<open>s.rolling(window=w).mean()\<close> with the default \<^verbatim>\<open>min_periods\<close> (the window
  size): position \<open>i\<close> is the mean of the \<open>w\<close> entries ending at \<open>i\<close> when there are
  \<open>w\<close> of them and none is \<open>NaN\<close>, and \<open>NaN\<close> otherwise. An empty window (\<open>w = 0\<close>) has
  no observation and gives \<open>NaN\<close>; a negative window is refused with a
  \<^verbatim>\<open>ValueError\<close> (``window must be an integer 0 or greater'').
\<close>

definition window_at :: "nat \<Rightarrow> 'a list \<Rightarrow> nat \<Rightarrow> 'a list" where
  "window_at w s i = take w (drop (Suc i - w) s)"

definition window_mean :: "nat \<Rightarrow> series \<Rightarrow> nat \<Rightarrow> fval" where
  "window_mean w s i =
     (if w = 0 \<or> Suc i < w then NaN
      else if NaN \<in> set (window_at w s i) then NaN
      else fdiv (fsum (window_at w s i)) (Fin (real w)))"

definition rolling_mean :: "int \<Rightarrow> series \<Rightarrow> py_error + series" where
  "rolling_mean window s =
     (if window < 0 then Inl ValueError
      else Inr (map (window_mean (nat window) s) [0..<length s]))"

section \<open>The analysis module: the series each function computes\<close>

text \<open>
  Line 60: \<^verbatim>\<open>data[(ticker, 'Close')].rolling(window=window).mean()\<close>, the series that
  \<^verbatim>\<open>calculate_moving_averages\<close> stores under \<^verbatim>\<open>SMA_<window>\<close>.
\<close>

definition sma_series :: "int \<Rightarrow> series \<Rightarrow> py_error + series" where
  "sma_series window close = rolling_mean window close"

text \<open>
  Lines 65 to 70 of \<^verbatim>\<open>calculate_rsi\<close>: \<open>delta\<close>, the rolling means \<open>gain\<close> and
  \<open>loss\<close>, their quotient \<open>rs\<close> and \<open>rsi = 100 - 100 / (1 + rs)\<close>.
\<close>

definition rsi_delta :: "series \<Rightarrow> series" where
  "rsi_delta close = diff1 close"

definition rsi_gain :: "int \<Rightarrow> series \<Rightarrow> py_error + series" where
  "rsi_gain window close =
     rolling_mean window (series_where (\<lambda>d. fless (Fin 0) d) (Fin 0) (rsi_delta close))"

definition rsi_loss :: "int \<Rightarrow> series \<Rightarrow> py_error + series" where
  "rsi_loss window close =
     rolling_mean window (map fneg (series_where (\<lambda>d. fless d (Fin 0)) (Fin 0) (rsi_delta close)))"

definition rsi_of_rs :: "fval \<Rightarrow> fval" where
  "rsi_of_rs rs = fsub (Fin 100) (fdiv (Fin 100) (fadd (Fin 1) rs))"

definition rsi_series :: "int \<Rightarrow> series \<Rightarrow> py_error + series" where
  "rsi_series window close =
     (case rsi_gain window close of
        Inl e \<Rightarrow> Inl e
      | Inr gain \<Rightarrow>
          (case rsi_loss window close of
             Inl e \<Rightarrow> Inl e
           | Inr loss \<Rightarrow>
               Inr (map rsi_of_rs (map (\<lambda>(g, l). fdiv g l) (zip gain loss)))))"

section \<open>Data frames and the store\<close>

text \<open>
  A column label is a plain string (the frames that \<^verbatim>\<open>calculate_performance\<close> and
  \<^verbatim>\<open>calculate_correlation\<close> return: one column per ticker) or a pair of ticker and
  field (the two-level columns of the frame that yfinance delivers with
  \<^verbatim>\<open>group_by='ticker'\<close>). A frame is the ordered list of its labelled columns; the
  date index is the position in a column.
\<close>

datatype label = Flat string | TickerField string string

type_synonym frame = "(label \<times> series) list"

text \<open>
  Data frames are objects: two of the analysis functions write into the frame they are
  given and return that same object. The store maps an address to the frame it holds;
  \<open>next_ref\<close> is the first address not yet handed out.
\<close>

record heap =
  objs :: "nat \<Rightarrow> frame"
  next_ref :: nat

definition alloc :: "heap \<Rightarrow> frame \<Rightarrow> heap \<times> nat" where
  "alloc h f = (h\<lparr>objs := (objs h)(next_ref h := f), next_ref := Suc (next_ref h)\<rparr>, next_ref h)"

text \<open>\<^verbatim>\<open>df[key]\<close>: the column, or a \<^verbatim>\<open>KeyError\<close> when the frame has no such label.\<close>

definition getitem :: "frame \<Rightarrow> label \<Rightarrow> py_error + series" where
  "getitem f key = (case map_of f key of None \<Rightarrow> Inl KeyError | Some c \<Rightarrow> Inr c)"

text \<open>
  \<^verbatim>\<open>df[key] = s\<close> on the object at address \<open>r\<close>: replaces the column in place when
  the label exists and appends it as the last column otherwise.
\<close>

definition setitem :: "heap \<Rightarrow> nat \<Rightarrow> label \<Rightarrow> series \<Rightarrow> heap" where
  "setitem h r key s = h\<lparr>objs := (objs h)(r := AList.update key s (objs h r))\<rparr>"

text \<open>
  \<^verbatim>\<open>df.xs(field, level=1, axis=1)\<close>: the columns whose second-level label is
  \<open>field\<close>, in their order, labelled by the ticker alone; a frame with no such column is
  refused.
\<close>

definition xs_level1 :: "string \<Rightarrow> frame \<Rightarrow> py_error + (string \<times> series) list" where
  "xs_level1 field f =
     (let sel = concat (map (\<lambda>(l, c). case l of TickerField t fld \<Rightarrow> (if fld = field then [(t, c)] else [])
                                              | Flat _ \<Rightarrow> []) f)
      in if sel = [] then Inl KeyError else Inr sel)"

text \<open>The number of rows of a cross-section: the length of its columns.\<close>

definition nrows :: "('k \<times> series) list \<Rightarrow> nat" where
  "nrows t = (case t of [] \<Rightarrow> 0 | (_, c) # _ \<Rightarrow> length c)"

subsection \<open>Decimal rendering of the window in a column name\<close>

definition digit_char :: "nat \<Rightarrow> char" where
  "digit_char d = ''0123456789'' ! d"

function str_nat :: "nat \<Rightarrow> string" where
  "str_nat n = (if n < 10 then [digit_char n] else str_nat (n div 10) @ [digit_char (n mod 10)])"
  by pat_completeness auto
termination
  by (relation "measure (\<lambda>n. n)") auto

definition str_int :: "int \<Rightarrow> string" where
  "str_int i = (if i < 0 then CHR ''-'' # str_nat (nat (- i)) else str_nat (nat i))"

section \<open>The analysis module: the four functions\<close>

text \<open>
  \<^verbatim>\<open>calculate_moving_averages(data, ticker, windows)\<close>, lines 57 to 61: for each window in
  turn, reads the close column, computes the rolling mean and stores it into \<open>data\<close>
  itself; returns \<open>data\<close>. An exception leaves the columns written so far in place.
\<close>

fun calculate_moving_averages :: "heap \<Rightarrow> nat \<Rightarrow> string \<Rightarrow> int list \<Rightarrow> heap \<times> (py_error + nat)" where
  "calculate_moving_averages h data ticker [] = (h, Inr data)"
| "calculate_moving_averages h data ticker (window # windows) =
     (case getitem (objs h data) (TickerField ticker ''Close'') of
        Inl e \<Rightarrow> (h, Inl e)
      | Inr close \<Rightarrow>
          (case sma_series window close of
             Inl e \<Rightarrow> (h, Inl e)
           | Inr sma \<Rightarrow>
               calculate_moving_averages
                 (setitem h data (TickerField ticker (''SMA_'' @ str_int window)) sma) data ticker windows))"

text \<open>\<^verbatim>\<open>calculate_rsi(data, ticker, window)\<close>, lines 63 to 72.\<close>

definition calculate_rsi :: "heap \<Rightarrow> nat \<Rightarrow> string \<Rightarrow> int \<Rightarrow> heap \<times> (py_error + nat)" where
  "calculate_rsi h data ticker window =
     (case getitem (objs h data) (TickerField ticker ''Close'') of
        Inl e \<Rightarrow> (h, Inl e)
      | Inr close \<Rightarrow>
          (case rsi_series window close of
             Inl e \<Rightarrow> (h, Inl e)
           | Inr rsi \<Rightarrow> (setitem h data (TickerField ticker ''RSI'') rsi, Inr data)))"

text \<open>
  Lines 77 and 78: the adjusted closes of all tickers, each column divided by its first
  entry and multiplied by 100. \<^verbatim>\<open>iloc[0]\<close> raises \<^verbatim>\<open>IndexError\<close> on a frame
  without rows.
\<close>

definition normalise_column :: "series \<Rightarrow> series" where
  "normalise_column c = (case c of [] \<Rightarrow> [] | c0 # _ \<Rightarrow> map (\<lambda>v. fmul (fdiv v c0) (Fin 100)) c)"

definition performance_frame :: "frame \<Rightarrow> py_error + frame" where
  "performance_frame f =
     (case xs_level1 ''Adj Close'' f of
        Inl e \<Rightarrow> Inl e
      | Inr adj_close \<Rightarrow>
          if nrows adj_close = 0 then Inl IndexError
          else Inr (map (\<lambda>(t, c). (Flat t, normalise_column c)) adj_close))"

definition calculate_performance :: "heap \<Rightarrow> nat \<Rightarrow> heap \<times> (py_error + nat)" where
  "calculate_performance h data =
     (case performance_frame (objs h data) of
        Inl e \<Rightarrow> (h, Inl e)
      | Inr res \<Rightarrow> (case alloc h res of (h', r) \<Rightarrow> (h', Inr r)))"

text \<open>
  Lines 82 and 83: \<^verbatim>\<open>close_prices.corr()\<close>, the Pearson correlation of every pair of
  close columns. pandas takes, for a pair of columns, the rows where neither is \<open>NaN\<close>
  and returns the covariance sum divided by the square root of the product of the two
  sums of squared deviations, or \<open>NaN\<close> when that divisor is zero (a constant column, a
  single row) or when no row is left. An infinite entry makes the deviations, and so the
  coefficient, \<open>NaN\<close>.
\<close>

fun real_of_fval :: "fval \<Rightarrow> real option" where
  "real_of_fval (Fin r) = Some r"
| "real_of_fval _ = None"

definition pearson :: "real list \<Rightarrow> real list \<Rightarrow> fval" where
  "pearson as bs =
     (let n = real (length as);
          meanx = sum_list as / n;
          meany = sum_list bs / n;
          covxy = sum_list (map (\<lambda>(a, b). (a - meanx) * (b - meany)) (zip as bs));
          ssqdm_x = sum_list (map (\<lambda>a. (a - meanx) * (a - meanx)) as);
          ssqdm_y = sum_list (map (\<lambda>b. (b - meany) * (b - meany)) bs);
          divisor = sqrt (ssqdm_x * ssqdm_y)
      in if divisor \<noteq> 0 then Fin (covxy / divisor) else NaN)"

definition corr_pair :: "series \<Rightarrow> series \<Rightarrow> fval" where
  "corr_pair xcol ycol =
     (let rows = filter (\<lambda>(x, y). x \<noteq> NaN \<and> y \<noteq> NaN) (zip xcol ycol)
      in case (those (map (\<lambda>(x, y). real_of_fval x) rows), those (map (\<lambda>(x, y). real_of_fval y) rows)) of
           (Some as, Some bs) \<Rightarrow> pearson as bs
         | _ \<Rightarrow> NaN)"

definition correlation_frame :: "frame \<Rightarrow> py_error + frame" where
  "correlation_frame f =
     (case xs_level1 ''Close'' f of
        Inl e \<Rightarrow> Inl e
      | Inr close_prices \<Rightarrow>
          Inr (map (\<lambda>(tj, cj). (Flat tj, map (\<lambda>(ti, ci). corr_pair ci cj) close_prices))
                 close_prices))"

definition calculate_correlation :: "heap \<Rightarrow> nat \<Rightarrow> heap \<times> (py_error + nat)" where
  "calculate_correlation h data =
     (case correlation_frame (objs h data) of
        Inl e \<Rightarrow> (h, Inl e)
      | Inr res \<Rightarrow> (case alloc h res of (h', r) \<Rightarrow> (h', Inr r)))"

section \<open>The plotting module: the guard of the heat map\<close>

text \<open>
  \<^verbatim>\<open>plot_correlation_heatmap(correlation_data)\<close>, lines 146 to 164, as the sequence of
  its visible effects: what it prints and whether it draws and shows the heat map.
\<close>

datatype plot_event = Print string | Heatmap frame | Show

definition plot_correlation_heatmap :: "frame \<Rightarrow> plot_event list" where
  "plot_correlation_heatmap correlation_data =
     Print ''[*] Generating correlation heatmap...'' #
     (if nrows correlation_data < 2
      then [Print ''Warning: Correlation requires at least 2 tickers. Skipping heatmap.'']
      else [Heatmap correlation_data, Print ''Plot generated.'', Show])"

section \<open>Auxiliary definitions\<close>

text \<open>A value that is not \<open>NaN\<close> and not negative: a non-negative real or \<open>PInf\<close>.\<close>

definition nonneg :: "fval \<Rightarrow> bool" where
  "nonneg v = (case v of Fin r \<Rightarrow> 0 \<le> r | PInf \<Rightarrow> True | _ \<Rightarrow> False)"

text \<open>The store before any frame exists.\<close>

definition empty_heap :: heap where
  "empty_heap = \<lparr>objs = (\<lambda>_. []), next_ref = 0\<rparr>"

text \<open>The labels under which \<^verbatim>\<open>calculate_moving_averages\<close> stores its results.\<close>

definition sma_labels :: "string \<Rightarrow> int list \<Rightarrow> label set" where
  "sma_labels ticker windows = (\<lambda>w. TickerField ticker (''SMA_'' @ str_int w)) ` set windows"

section \<open>Rolling means of finite series\<close>





lemma window_mean_short: "Suc i < w \<Longrightarrow> window_mean w s i = NaN"
  by (simp add: window_mean_def)




section \<open>The relative strength index\<close>

lemmas eval_defs = sma_series_def rsi_series_def rsi_gain_def rsi_loss_def rsi_delta_def
  series_where_def rsi_of_rs_def fsub_def rolling_mean_def window_mean_def window_at_def fsum_def
  inf_of_sign_def upt_conv_Cons

lemma rsi_series_Inr:
  assumes "rsi_gain w close = Inr gain" "rsi_loss w close = Inr loss"
  shows "rsi_series w close = Inr (map rsi_of_rs (map (\<lambda>(g, l). fdiv g l) (zip gain loss)))"
  using assms by (simp add: rsi_series_def)

lemma length_diff1: "length (diff1 s) = length s"
  by (cases s) simp_all

lemma rolling_mean_length: "rolling_mean w s = Inr r \<Longrightarrow> length r = length s"
  by (auto simp: rolling_mean_def split: if_splits)

lemma rsi_gain_length: "rsi_gain w close = Inr gain \<Longrightarrow> length gain = length close"
  by (auto simp: rsi_gain_def rsi_delta_def series_where_def length_diff1 dest: rolling_mean_length)

lemma rsi_loss_length: "rsi_loss w close = Inr loss \<Longrightarrow> length loss = length close"
  by (auto simp: rsi_loss_def rsi_delta_def series_where_def length_diff1 dest: rolling_mean_length)

lemma rsi_of_rs_PInf: "rsi_of_rs PInf = Fin 100"
  by (simp add: rsi_of_rs_def fsub_def)

lemma rsi_of_rs_NaN: "rsi_of_rs NaN = NaN"
  by (simp add: rsi_of_rs_def fsub_def)

text \<open>
  Claim C2, as the code has it. Where the rolling mean of the losses is 0 and the rolling
  mean of the gains is positive, the quotient \<open>rs\<close> is \<open>PInf\<close> and the RSI is exactly
  100. Where both rolling means are 0 the quotient is \<open>0 / 0 = NaN\<close> and the RSI is
  \<open>NaN\<close>, not 50: \<^verbatim>\<open>calculate_rsi\<close> divides without a guard.
\<close>

theorem rsi_zero_loss:
  assumes "rsi_gain w close = Inr gain" and "rsi_loss w close = Inr loss" and "i < length close"
  shows "\<exists>rsi. rsi_series w close = Inr rsi \<and> length rsi = length close \<and>
           (loss ! i = Fin 0 \<and> (\<exists>g>0. gain ! i = Fin g) \<longrightarrow> rsi ! i = Fin 100) \<and>
           (loss ! i = Fin 0 \<and> gain ! i = Fin 0 \<longrightarrow> rsi ! i = NaN)"
proof -
  let ?rsi = "map rsi_of_rs (map (\<lambda>(g, l). fdiv g l) (zip gain loss))"
  have lg: "length gain = length close" and ll: "length loss = length close"
    using assms by (simp_all add: rsi_gain_length rsi_loss_length)
  have at: "?rsi ! i = rsi_of_rs (fdiv (gain ! i) (loss ! i))"
    using assms(3) lg ll by simp
  have "?rsi ! i = Fin 100" if "loss ! i = Fin 0" "gain ! i = Fin g" "0 < g" for g
    using that at by (simp add: inf_of_sign_def rsi_of_rs_PInf)
  moreover have "?rsi ! i = NaN" if "loss ! i = Fin 0" "gain ! i = Fin 0"
    using that at by (simp add: inf_of_sign_def rsi_of_rs_NaN)
  moreover have "length ?rsi = length close" using lg ll by simp
  ultimately show ?thesis
    using rsi_series_Inr [OF assms(1,2)] by blast
qed

text \<open>
  A flat series, window 2: at position 2 the window is filled, both rolling means are 0,
  and the RSI is \<open>NaN\<close>.
\<close>

theorem rsi_flat_counterexample:
  "rsi_gain 2 (map Fin [5, 5, 5]) = Inr [NaN, Fin 0, Fin 0] \<and>
   rsi_loss 2 (map Fin [5, 5, 5]) = Inr [NaN, Fin 0, Fin 0] \<and>
   rsi_series 2 (map Fin [5, 5, 5]) = Inr [NaN, NaN, NaN]"
  by (simp add: eval_defs)

theorem rsi_zero_loss_witness:
  "rsi_gain 2 (map Fin [1, 2, 3]) = Inr [NaN, Fin (1/2), Fin 1] \<and>
   rsi_loss 2 (map Fin [1, 2, 3]) = Inr [NaN, Fin 0, Fin 0] \<and>
   (\<exists>rsi. rsi_series 2 (map Fin [1, 2, 3]) = Inr rsi \<and> rsi ! 2 = Fin 100)"
proof -
  have g: "rsi_gain 2 (map Fin [1, 2, 3]) = Inr [NaN, Fin (1/2), Fin 1]"
    by (simp add: eval_defs)
  have l: "rsi_loss 2 (map Fin [1, 2, 3]) = Inr [NaN, Fin 0, Fin 0]"
    by (simp add: eval_defs)
  have i: "2 < length (map Fin [1, 2, 3 :: real])" by simp
  show ?thesis using rsi_zero_loss [OF g l i] g l by auto
qed

subsection \<open>The range of the RSI\<close>

lemma nonneg_fadd: "nonneg a \<Longrightarrow> nonneg b \<Longrightarrow> nonneg (fadd a b)"
  by (cases a; cases b) (simp_all add: nonneg_def)

lemma nonneg_foldl: "nonneg a \<Longrightarrow> \<forall>x\<in>set xs. nonneg x \<Longrightarrow> nonneg (foldl fadd a xs)"
  by (induction xs arbitrary: a) (simp_all add: nonneg_fadd)

lemma nonneg_zero: "nonneg (Fin 0)"
  by (simp add: nonneg_def)

lemma nonneg_fsum: "\<forall>x\<in>set xs. nonneg x \<Longrightarrow> nonneg (fsum xs)"
  by (simp add: fsum_def nonneg_foldl nonneg_zero)

lemma nonneg_window_mean:
  assumes "\<forall>x\<in>set s. nonneg x"
  shows "window_mean w s i = NaN \<or> nonneg (window_mean w s i)"
proof (cases "w = 0 \<or> Suc i < w \<or> NaN \<in> set (window_at w s i)")
  case True
  then show ?thesis by (auto simp: window_mean_def)
next
  case False
  have "set (window_at w s i) \<subseteq> set s"
    unfolding window_at_def by (meson set_take_subset set_drop_subset subset_trans)
  then have "nonneg (fsum (window_at w s i))"
    using assms by (intro nonneg_fsum) auto
  moreover have "nonneg (fdiv a (Fin (real w)))" if "nonneg a" "0 < w" for a
    using that by (cases a) (simp_all add: nonneg_def)
  ultimately show ?thesis using False by (simp add: window_mean_def)
qed

lemma nonneg_rolling_mean:
  assumes "\<forall>x\<in>set s. nonneg x" "rolling_mean w s = Inr r" "v \<in> set r"
  shows "v = NaN \<or> nonneg v"
proof -
  from assms(2,3) obtain i where "v = window_mean (nat w) s i"
    by (auto simp: rolling_mean_def split: if_splits)
  then show ?thesis using nonneg_window_mean [OF assms(1)] by simp
qed

lemma nonneg_gain_input:
  "\<forall>x\<in>set (series_where (\<lambda>d. fless (Fin 0) d) (Fin 0) s). nonneg x"
proof -
  have "nonneg x" if "fless (Fin 0) x" for x
    using that by (cases x) (simp_all add: nonneg_def)
  then show ?thesis by (auto simp: series_where_def nonneg_zero)
qed

lemma nonneg_loss_input:
  "\<forall>x\<in>set (map fneg (series_where (\<lambda>d. fless d (Fin 0)) (Fin 0) s)). nonneg x"
proof -
  have "nonneg (fneg x)" if "fless x (Fin 0)" for x
    using that by (cases x) (simp_all add: nonneg_def)
  then show ?thesis by (auto simp: series_where_def nonneg_zero)
qed

lemma rsi_of_rs_range:
  assumes "g = NaN \<or> nonneg g" "l = NaN \<or> nonneg l"
  shows "rsi_of_rs (fdiv g l) = NaN \<or> (\<exists>r. rsi_of_rs (fdiv g l) = Fin r \<and> 0 \<le> r \<and> r \<le> 100)"
proof -
  have rs: "fdiv g l = NaN \<or> nonneg (fdiv g l)"
    using assms by (cases g; cases l) (auto simp: nonneg_def inf_of_sign_def)
  have "rsi_of_rs x = NaN \<or> (\<exists>r. rsi_of_rs x = Fin r \<and> 0 \<le> r \<and> r \<le> 100)"
    if "x = NaN \<or> nonneg x" for x
  proof (cases x)
    case (Fin r)
    with that have "0 \<le> r" by (simp add: nonneg_def)
    then have "100 / (1 + r) \<le> 100" "0 \<le> 100 / (1 + r)"
      by (simp_all add: field_simps)
    with Fin \<open>0 \<le> r\<close> show ?thesis by (simp add: rsi_of_rs_def fsub_def)
  qed (use that in \<open>simp_all add: rsi_of_rs_def fsub_def nonneg_def\<close>)
  with rs show ?thesis by blast
qed

text \<open>
  Claim C3, as the code has it. Every position of the series that \<^verbatim>\<open>calculate_rsi\<close>
  stores is \<open>NaN\<close> or a real number in \<open>[0, 100]\<close>; it is never infinite. \<open>NaN\<close> is
  the only undefined marker the code has, and it is also what a filled window without any
  price change yields.
\<close>

theorem rsi_series_range:
  assumes "rsi_series w close = Inr rsi" and "v \<in> set rsi"
  shows "v = NaN \<or> (\<exists>r. v = Fin r \<and> 0 \<le> r \<and> r \<le> 100)"
proof -
  from assms(1) obtain gain loss where g: "rsi_gain w close = Inr gain"
    and l: "rsi_loss w close = Inr loss"
    and r: "rsi = map rsi_of_rs (map (\<lambda>(g, l). fdiv g l) (zip gain loss))"
    by (auto simp: rsi_series_def split: sum.splits)
  from assms(2) r obtain a b where ab: "(a, b) \<in> set (zip gain loss)" and v: "v = rsi_of_rs (fdiv a b)"
    by auto
  have "a \<in> set gain" "b \<in> set loss" using ab by (auto dest: set_zip_leftD set_zip_rightD)
  then have "a = NaN \<or> nonneg a" "b = NaN \<or> nonneg b"
    using g l nonneg_rolling_mean [OF nonneg_gain_input] nonneg_rolling_mean [OF nonneg_loss_input]
    by (auto simp: rsi_gain_def rsi_loss_def)
  then show ?thesis unfolding v by (rule rsi_of_rs_range)
qed

text \<open>A flat series, window 2: positions 1, 2 and 3 have a filled window and are \<open>NaN\<close>.\<close>

theorem rsi_nan_counterexample:
  "rsi_series 2 (map Fin [7, 7, 7, 7]) = Inr [NaN, NaN, NaN, NaN]"
  by (simp add: eval_defs)

theorem rsi_series_range_witness:
  "rsi_series 2 (map Fin [1, 2, 1, 4]) = Inr [NaN, Fin 100, Fin 50, Fin 75] \<and>
   (Fin 75 = NaN \<or> (\<exists>r. Fin 75 = Fin r \<and> 0 \<le> r \<and> r \<le> 100))"
proof -
  have r: "rsi_series 2 (map Fin [1, 2, 1, 4]) = Inr [NaN, Fin 100, Fin 50, Fin 75]"
    by (simp add: eval_defs)
  have m: "Fin 75 \<in> set [NaN, Fin 100, Fin 50, Fin 75]" by simp
  show ?thesis using r rsi_series_range [OF r m] by (rule conjI)
qed

subsection \<open>The first defined position of the RSI\<close>

text \<open>Before position \<open>w - 1\<close> no window of \<open>w\<close> entries exists and the RSI is undefined.\<close>

lemma rsi_series_before_window:
  assumes "rsi_series w close = Inr rsi" and "i < length close" and "int i + 1 < w"
  shows "rsi ! i = NaN"
proof -
  from assms(1) obtain gain loss where g: "rsi_gain w close = Inr gain"
    and l: "rsi_loss w close = Inr loss"
    and r: "rsi = map rsi_of_rs (map (\<lambda>(g, l). fdiv g l) (zip gain loss))"
    by (auto simp: rsi_series_def split: sum.splits)
  have lg: "length gain = length close" and ll: "length loss = length close"
    using g l by (simp_all add: rsi_gain_length rsi_loss_length)
  have short: "Suc i < nat w" using assms(3) by linarith
  have "gain ! i = NaN"
    using g assms(2) short
    by (auto simp: rsi_gain_def rolling_mean_def window_mean_short series_where_def rsi_delta_def
        length_diff1 split: if_splits)
  then show ?thesis
    using assms(2) lg ll by (simp add: r rsi_of_rs_NaN)
qed

text \<open>
  Claim C4 at closes 1, 2, 1 and window 2. \<^verbatim>\<open>delta.where(delta > 0, 0)\<close> turns the
  \<open>NaN\<close> at position 0 of \<open>delta\<close> into a 0, so the first window of two entries ends at
  position 1, where only one price change exists: the RSI at position 1 is 100, not
  undefined.
\<close>

theorem rsi_warmup_off_by_one:
  "rsi_series 2 (map Fin [1, 2, 1]) = Inr [NaN, Fin 100, Fin 50]"
  by (simp add: eval_defs)

section \<open>Windows out of range\<close>






section \<open>The Pearson coefficient\<close>










subsection \<open>The coefficient of two columns\<close>







section \<open>The correlation matrix\<close>

lemma correlation_frame_Inr:
  "xs_level1 ''Close'' f = Inr cols \<Longrightarrow>
   correlation_frame f =
     Inr (map (\<lambda>(tj, cj). (Flat tj, map (\<lambda>(ti, ci). corr_pair ci cj) cols)) cols)"
  by (simp add: correlation_frame_def)



lemma xs_level1_nonempty: "xs_level1 field f = Inr cols \<Longrightarrow> cols \<noteq> []"
  by (auto simp: xs_level1_def Let_def split: if_splits)

lemma nrows_corr_matrix:
  assumes "cols \<noteq> []"
  shows "nrows (map (\<lambda>(tj, cj). (Flat tj, map (\<lambda>(ti, ci). corr_pair ci cj) cols)) cols) = length cols"
  using assms by (cases cols) (simp_all add: nrows_def case_prod_unfold)

lemma pearson_13: "pearson [1, 3] [1, 3] = Fin 1"
  by (simp add: pearson_def)








text \<open>
  Claim C5, as the code has it. \<^verbatim>\<open>calculate_correlation\<close> has no check on the number
  of tickers and no \<open>InsufficientTickers\<close> condition: it fails (with the
  \<^verbatim>\<open>KeyError\<close> of the cross-section) only when the frame has no close column, and
  for every frame with at least one close column it produces a square matrix, 1 by 1 for
  a single ticker. The check for fewer than 2 tickers is made by the caller's next step,
  \<^verbatim>\<open>plot_correlation_heatmap\<close>, which draws the heat map exactly when the matrix has
  at least 2 rows.
\<close>

theorem correlation_no_ticker_guard:
  "(\<forall>e. xs_level1 ''Close'' f = Inl e \<longrightarrow> correlation_frame f = Inl e) \<and>
   (\<forall>cols. xs_level1 ''Close'' f = Inr cols \<longrightarrow>
      (\<exists>m. correlation_frame f = Inr m \<and> 1 \<le> length m \<and> length m = length cols \<and>
           (\<forall>c\<in>set m. length (snd c) = length cols) \<and>
           (Heatmap m \<in> set (plot_correlation_heatmap m)) = (2 \<le> length cols)))"
proof (intro conjI allI impI)
  fix e assume "xs_level1 ''Close'' f = Inl e"
  then show "correlation_frame f = Inl e" by (simp add: correlation_frame_def)
next
  fix cols assume x: "xs_level1 ''Close'' f = Inr cols"
  let ?m = "map (\<lambda>(tj, cj). (Flat tj, map (\<lambda>(ti, ci). corr_pair ci cj) cols)) cols"
  have ne: "cols \<noteq> []" using x by (rule xs_level1_nonempty)
  then have "1 \<le> length ?m" by (cases cols) simp_all
  moreover have "\<forall>c\<in>set ?m. length (snd c) = length cols" by auto
  moreover have "(Heatmap ?m \<in> set (plot_correlation_heatmap ?m)) = (2 \<le> length cols)"
    unfolding plot_correlation_heatmap_def nrows_corr_matrix [OF ne] by auto
  moreover have "length ?m = length cols" by simp
  ultimately show "\<exists>m. correlation_frame f = Inr m \<and> 1 \<le> length m \<and> length m = length cols \<and>
           (\<forall>c\<in>set m. length (snd c) = length cols) \<and>
           (Heatmap m \<in> set (plot_correlation_heatmap m)) = (2 \<le> length cols)"
    using correlation_frame_Inr [OF x] by blast
qed

text \<open>A single ticker with closes 1, 3: the result is the 1 by 1 matrix with entry 1.\<close>

theorem single_ticker_matrix_counterexample:
  "correlation_frame [(TickerField ''A'' ''Close'', [Fin 1, Fin 3])] = Inr [(Flat ''A'', [Fin 1])]"
  by (simp add: correlation_frame_def xs_level1_def corr_pair_def pearson_13)

theorem correlation_no_ticker_guard_witness:
  "correlation_frame [] = Inl KeyError \<and>
   (\<exists>m. correlation_frame [(TickerField ''A'' ''Close'', [Fin 1, Fin 3])] = Inr m \<and> length m = 1 \<and>
        Heatmap m \<notin> set (plot_correlation_heatmap m)) \<and>
   (\<exists>m. correlation_frame [(TickerField ''A'' ''Close'', [Fin 1, Fin 3]), (TickerField ''B'' ''Close'', [Fin 3, Fin 1])] = Inr m \<and>
        length m = 2 \<and> Heatmap m \<in> set (plot_correlation_heatmap m))"
proof -
  have x0: "xs_level1 ''Close'' [] = Inl KeyError" by (simp add: xs_level1_def)
  have x1: "xs_level1 ''Close'' [(TickerField ''A'' ''Close'', [Fin 1, Fin 3])] = Inr [(''A'', [Fin 1, Fin 3])]"
    by (simp add: xs_level1_def)
  have x2: "xs_level1 ''Close'' [(TickerField ''A'' ''Close'', [Fin 1, Fin 3]), (TickerField ''B'' ''Close'', [Fin 3, Fin 1])]
      = Inr [(''A'', [Fin 1, Fin 3]), (''B'', [Fin 3, Fin 1])]"
    by (simp add: xs_level1_def)
  have "correlation_frame [] = Inl KeyError"
    using correlation_no_ticker_guard [of "[]"] x0 by blast
  moreover have "\<exists>m. correlation_frame [(TickerField ''A'' ''Close'', [Fin 1, Fin 3])] = Inr m \<and> length m = 1 \<and>
        Heatmap m \<notin> set (plot_correlation_heatmap m)"
    using correlation_no_ticker_guard [of "[(TickerField ''A'' ''Close'', [Fin 1, Fin 3])]"] x1 by fastforce
  moreover have "\<exists>m. correlation_frame [(TickerField ''A'' ''Close'', [Fin 1, Fin 3]), (TickerField ''B'' ''Close'', [Fin 3, Fin 1])] = Inr m \<and>
        length m = 2 \<and> Heatmap m \<in> set (plot_correlation_heatmap m)"
    using correlation_no_ticker_guard [of "[(TickerField ''A'' ''Close'', [Fin 1, Fin 3]), (TickerField ''B'' ''Close'', [Fin 3, Fin 1])]"] x2
    by fastforce
  ultimately show ?thesis by blast
qed

section \<open>Normalised performance\<close>







section \<open>What the four functions do to the store\<close>

lemma setitem_objs: "objs (setitem h r key s) a = (if a = r then AList.update key s (objs h r) else objs h a)"
  by (simp add: setitem_def)

lemma setitem_next_ref: "next_ref (setitem h r key s) = next_ref h"
  by (simp add: setitem_def)

lemma map_of_setitem:
  "map_of (objs (setitem h r key s) r) k = (if k = key then Some s else map_of (objs h r) k)"
  by (simp add: setitem_def update_conv')

lemma calculate_moving_averages_effect:
  assumes "calculate_moving_averages h data ticker windows = (h', res)"
  shows "next_ref h' = next_ref h \<and> (\<forall>a. a \<noteq> data \<longrightarrow> objs h' a = objs h a) \<and>
         (\<forall>k. k \<notin> sma_labels ticker windows \<longrightarrow> map_of (objs h' data) k = map_of (objs h data) k) \<and>
         (\<forall>k. map_of (objs h data) k \<noteq> None \<longrightarrow> map_of (objs h' data) k \<noteq> None) \<and>
         (\<forall>r. res = Inr r \<longrightarrow> r = data \<and>
              (\<forall>k\<in>sma_labels ticker windows. map_of (objs h' data) k \<noteq> None))"
  using assms
proof (induction windows arbitrary: h)
  case Nil
  then show ?case by (auto simp: sma_labels_def)
next
  case (Cons w ws)
  show ?case
  proof (cases "getitem (objs h data) (TickerField ticker ''Close'')")
    case (Inl e)
    with Cons.prems show ?thesis by auto
  next
    case (Inr close)
    note c = this
    show ?thesis
    proof (cases "sma_series w close")
      case (Inl e)
      with c Cons.prems show ?thesis by auto
    next
      case (Inr sma)
      let ?key = "TickerField ticker (''SMA_'' @ str_int w)"
      let ?h1 = "setitem h data ?key sma"
      have step: "calculate_moving_averages ?h1 data ticker ws = (h', res)"
        using Cons.prems c Inr by simp
      note IH = Cons.IH [OF step]
      have lab: "sma_labels ticker (w # ws) = insert ?key (sma_labels ticker ws)"
        by (simp add: sma_labels_def)
      have 1: "next_ref h' = next_ref h" using IH by (simp add: setitem_next_ref)
      have 2: "objs h' a = objs h a" if "a \<noteq> data" for a
        using IH that by (simp add: setitem_objs)
      have 3: "map_of (objs h' data) k = map_of (objs h data) k" if "k \<notin> sma_labels ticker (w # ws)" for k
      proof -
        have "k \<noteq> ?key" "k \<notin> sma_labels ticker ws" using that lab by auto
        then show ?thesis using IH by (simp add: map_of_setitem)
      qed
      have 4: "map_of (objs h' data) k \<noteq> None" if "map_of (objs h data) k \<noteq> None" for k
      proof -
        have "map_of (objs ?h1 data) k \<noteq> None" using that by (simp add: map_of_setitem)
        then show ?thesis using IH by blast
      qed
      have 5: "r = data \<and> (\<forall>k\<in>sma_labels ticker (w # ws). map_of (objs h' data) k \<noteq> None)"
        if "res = Inr r" for r
      proof -
        have "map_of (objs ?h1 data) ?key \<noteq> None" by (simp add: map_of_setitem)
        then have "map_of (objs h' data) ?key \<noteq> None" using IH by blast
        then show ?thesis using IH that lab by auto
      qed
      show ?thesis using 1 2 3 4 5 by blast
    qed
  qed
qed

lemma calculate_rsi_effect:
  assumes "calculate_rsi h data ticker window = (h', Inr r)"
  shows "r = data \<and> next_ref h' = next_ref h \<and> (\<forall>a. a \<noteq> data \<longrightarrow> objs h' a = objs h a) \<and>
         (\<forall>k. k \<noteq> TickerField ticker ''RSI'' \<longrightarrow> map_of (objs h' data) k = map_of (objs h data) k) \<and>
         map_of (objs h' data) (TickerField ticker ''RSI'') \<noteq> None"
  using assms
  by (auto simp: calculate_rsi_def setitem_objs setitem_next_ref update_conv' split: sum.splits)

lemma calculate_performance_effect:
  assumes "calculate_performance h data = (h', Inr r)"
  shows "r = next_ref h \<and> next_ref h' = Suc (next_ref h) \<and>
         performance_frame (objs h data) = Inr (objs h' r) \<and>
         (\<forall>a. a \<noteq> next_ref h \<longrightarrow> objs h' a = objs h a)"
  using assms
  by (auto simp: calculate_performance_def alloc_def split: sum.splits)

lemma calculate_correlation_effect:
  assumes "calculate_correlation h data = (h', Inr r)"
  shows "r = next_ref h \<and> next_ref h' = Suc (next_ref h) \<and>
         correlation_frame (objs h data) = Inr (objs h' r) \<and>
         (\<forall>a. a \<noteq> next_ref h \<longrightarrow> objs h' a = objs h a)"
  using assms
  by (auto simp: calculate_correlation_def alloc_def split: sum.splits)

text \<open>
  Claim C9, as the code has it. \<^verbatim>\<open>calculate_performance\<close> and
  \<^verbatim>\<open>calculate_correlation\<close> return a newly allocated frame, different from every
  existing object, and leave every existing object, the input among them, unchanged.
  \<^verbatim>\<open>calculate_moving_averages\<close> and \<^verbatim>\<open>calculate_rsi\<close> do not: they return the
  input object itself, into which they have written the columns \<^verbatim>\<open>SMA_<w>\<close> of
  their windows and the column \<^verbatim>\<open>RSI\<close>; every other column of the input and every
  other object are unchanged, and nothing is allocated.
\<close>

theorem frame_effects:
  "(calculate_moving_averages h data ticker windows = (h', Inr r) \<longrightarrow>
      r = data \<and> next_ref h' = next_ref h \<and> (\<forall>a. a \<noteq> data \<longrightarrow> objs h' a = objs h a) \<and>
      (\<forall>k. k \<notin> sma_labels ticker windows \<longrightarrow> map_of (objs h' data) k = map_of (objs h data) k) \<and>
      (\<forall>k\<in>sma_labels ticker windows. map_of (objs h' data) k \<noteq> None)) \<and>
   (calculate_rsi h data ticker window = (h', Inr r) \<longrightarrow>
      r = data \<and> next_ref h' = next_ref h \<and> (\<forall>a. a \<noteq> data \<longrightarrow> objs h' a = objs h a) \<and>
      (\<forall>k. k \<noteq> TickerField ticker ''RSI'' \<longrightarrow> map_of (objs h' data) k = map_of (objs h data) k) \<and>
      map_of (objs h' data) (TickerField ticker ''RSI'') \<noteq> None) \<and>
   (calculate_performance h data = (h', Inr r) \<longrightarrow>
      r = next_ref h \<and> next_ref h' = Suc (next_ref h) \<and>
      (\<forall>a. a \<noteq> r \<longrightarrow> objs h' a = objs h a) \<and>
      (data < next_ref h \<longrightarrow> r \<noteq> data \<and> objs h' data = objs h data)) \<and>
   (calculate_correlation h data = (h', Inr r) \<longrightarrow>
      r = next_ref h \<and> next_ref h' = Suc (next_ref h) \<and>
      (\<forall>a. a \<noteq> r \<longrightarrow> objs h' a = objs h a) \<and>
      (data < next_ref h \<longrightarrow> r \<noteq> data \<and> objs h' data = objs h data))"
proof ((intro conjI; intro impI), goal_cases)
  case 1
  from calculate_moving_averages_effect [OF 1] show ?case by blast
next
  case 2
  from calculate_rsi_effect [OF 2] show ?case .
next
  case 3
  from calculate_performance_effect [OF 3] show ?case by auto
next
  case 4
  from calculate_correlation_effect [OF 4] show ?case by auto
qed

lemma str_int_2: "str_int 2 = ''2''"
  by (simp add: str_int_def digit_char_def)

text \<open>
  A store with one frame, the closes 1, 2, 3 of ticker T, at address 0. Both functions
  return address 0, and the frame at address 0 has a further column after the call.
\<close>

theorem in_place_update_counterexample:
  "snd (calculate_moving_averages
          (fst (alloc empty_heap [(TickerField ''T'' ''Close'', [Fin 1, Fin 2, Fin 3])])) 0 ''T'' [2]) = Inr 0 \<and>
   objs (fst (calculate_moving_averages
          (fst (alloc empty_heap [(TickerField ''T'' ''Close'', [Fin 1, Fin 2, Fin 3])])) 0 ''T'' [2])) 0
     = [(TickerField ''T'' ''Close'', [Fin 1, Fin 2, Fin 3]),
        (TickerField ''T'' ''SMA_2'', [NaN, Fin (3 / 2), Fin (5 / 2)])] \<and>
   snd (calculate_rsi
          (fst (alloc empty_heap [(TickerField ''T'' ''Close'', [Fin 1, Fin 2, Fin 3])])) 0 ''T'' 2) = Inr 0 \<and>
   objs (fst (calculate_rsi
          (fst (alloc empty_heap [(TickerField ''T'' ''Close'', [Fin 1, Fin 2, Fin 3])])) 0 ''T'' 2)) 0
     = [(TickerField ''T'' ''Close'', [Fin 1, Fin 2, Fin 3]),
        (TickerField ''T'' ''RSI'', [NaN, Fin 100, Fin 100])]"
proof -
  have s: "sma_series 2 [Fin 1, Fin 2, Fin 3] = Inr [NaN, Fin (3 / 2), Fin (5 / 2)]"
    by (simp add: eval_defs)
  have r: "rsi_series 2 [Fin 1, Fin 2, Fin 3] = Inr [NaN, Fin 100, Fin 100]"
    by (simp add: eval_defs)
  show ?thesis
    by (simp add: alloc_def empty_heap_def getitem_def setitem_def calculate_rsi_def s r str_int_2)
qed

theorem frame_effects_witness:
  "let H = fst (alloc empty_heap [(TickerField ''T'' ''Close'', [Fin 1, Fin 2, Fin 3]),
                                  (TickerField ''T'' ''Adj Close'', [Fin 2, Fin 4, Fin 6])])
   in snd (calculate_moving_averages H 0 ''T'' [2]) = Inr 0 \<and>
      map_of (objs (fst (calculate_moving_averages H 0 ''T'' [2])) 0) (TickerField ''T'' ''Close'')
        = map_of (objs H 0) (TickerField ''T'' ''Close'') \<and>
      snd (calculate_rsi H 0 ''T'' 2) = Inr 0 \<and>
      map_of (objs (fst (calculate_rsi H 0 ''T'' 2)) 0) (TickerField ''T'' ''Close'')
        = map_of (objs H 0) (TickerField ''T'' ''Close'') \<and>
      snd (calculate_performance H 0) = Inr 1 \<and>
      objs (fst (calculate_performance H 0)) 0 = objs H 0 \<and>
      snd (calculate_correlation H 0) = Inr 1 \<and>
      objs (fst (calculate_correlation H 0)) 0 = objs H 0"
proof -
  define H where "H = fst (alloc empty_heap [(TickerField ''T'' ''Close'', [Fin 1, Fin 2, Fin 3]),
                                  (TickerField ''T'' ''Adj Close'', [Fin 2, Fin 4, Fin 6])])"
  have obj: "objs H 0 = [(TickerField ''T'' ''Close'', [Fin 1, Fin 2, Fin 3]),
                         (TickerField ''T'' ''Adj Close'', [Fin 2, Fin 4, Fin 6])]"
    and nx: "next_ref H = 1"
    by (simp_all add: H_def alloc_def empty_heap_def)
  have sm: "sma_series 2 [Fin 1, Fin 2, Fin 3] = Inr [NaN, Fin (3 / 2), Fin (5 / 2)]"
    by (simp add: eval_defs)
  have rs: "rsi_series 2 [Fin 1, Fin 2, Fin 3] = Inr [NaN, Fin 100, Fin 100]"
    by (simp add: eval_defs)
  have s1: "snd (calculate_moving_averages H 0 ''T'' [2]) = Inr 0"
    by (simp add: obj getitem_def sm)
  have s2: "snd (calculate_rsi H 0 ''T'' 2) = Inr 0"
    by (simp add: calculate_rsi_def obj getitem_def rs)
  have s3: "snd (calculate_performance H 0) = Inr 1"
    by (simp add: calculate_performance_def performance_frame_def xs_level1_def nrows_def obj alloc_def nx)
  have s4: "snd (calculate_correlation H 0) = Inr 1"
    by (simp add: calculate_correlation_def correlation_frame_def xs_level1_def obj alloc_def nx)
  have e1: "calculate_moving_averages H 0 ''T'' [2] = (fst (calculate_moving_averages H 0 ''T'' [2]), Inr 0)"
    using s1 by (simp add: prod_eq_iff)
  have e2: "calculate_rsi H 0 ''T'' 2 = (fst (calculate_rsi H 0 ''T'' 2), Inr 0)"
    using s2 by (simp add: prod_eq_iff)
  have e3: "calculate_performance H 0 = (fst (calculate_performance H 0), Inr 1)"
    using s3 by (simp add: prod_eq_iff)
  have e4: "calculate_correlation H 0 = (fst (calculate_correlation H 0), Inr 1)"
    using s4 by (simp add: prod_eq_iff)
  have notin: "TickerField ''T'' ''Close'' \<notin> sma_labels ''T'' [2]"
    by (simp add: sma_labels_def)
  have c1: "map_of (objs (fst (calculate_moving_averages H 0 ''T'' [2])) 0) (TickerField ''T'' ''Close'')
        = map_of (objs H 0) (TickerField ''T'' ''Close'')"
    using frame_effects [of H 0 "''T''" "[2]" "fst (calculate_moving_averages H 0 ''T'' [2])" 0,
        THEN conjunct1, rule_format, OF e1] notin by blast
  have c2: "map_of (objs (fst (calculate_rsi H 0 ''T'' 2)) 0) (TickerField ''T'' ''Close'')
        = map_of (objs H 0) (TickerField ''T'' ''Close'')"
    using frame_effects [of H 0 "''T''" _ "fst (calculate_rsi H 0 ''T'' 2)" 0 2,
        THEN conjunct2, THEN conjunct1, rule_format, OF e2] by simp
  have c3: "objs (fst (calculate_performance H 0)) 0 = objs H 0"
    using frame_effects [of H 0 _ _ "fst (calculate_performance H 0)" 1,
        THEN conjunct2, THEN conjunct2, THEN conjunct1, rule_format, OF e3] nx by simp
  have c4: "objs (fst (calculate_correlation H 0)) 0 = objs H 0"
    using frame_effects [of H 0 _ _ "fst (calculate_correlation H 0)" 1,
        THEN conjunct2, THEN conjunct2, THEN conjunct2, rule_format, OF e4] nx by simp
  show ?thesis
    unfolding Let_def H_def [symmetric] using s1 c1 s2 c2 s3 c3 s4 c4 by (intro conjI)
qed

end
